theory Spec2Isabelle
  imports Main "HOL-Library.Countable"
begin

section \<open>Data model (types.ts)\<close>

datatype Language = AR | EN | ZH | KO

datatype AppStage =
  WELCOME | UPLOAD | PROCESSING | SELECT_PAGE_RANGE | SELECT_TYPE
  | SELECT_COUNT | GENERATING | ANSWERING | COMPLETED

datatype QuestionType = MultipleChoice | TrueFalse

text \<open>
  \<open>Question = MultipleChoiceQuestion | TrueFalseQuestion\<close> is an untagged union of
  interfaces: the list comes from \<open>JSON.parse\<close> and is cast, and the code tells the
  variants apart with \<open>'options' in q\<close> and \<open>'answer' in q\<close>. A question is therefore an
  object whose fields other than \<open>question\<close> may be absent (\<open>None\<close>).
\<close>

record Question =
  question :: string
  options :: "string list option"
  correctAnswer :: "string option"
  answer :: "bool option"

text \<open>
  \<open>ImagePart.inlineData\<close>. \<open>data\<close> is what \<open>fileToBase64\<close> resolves to, which is
  \<open>undefined\<close> (\<open>None\<close>) when the data URL holds no comma.
\<close>

record ImagePart =
  data :: "string option"
  mimeType :: string

datatype StudyMaterial = Text string | Image ImagePart

section \<open>The browser and the external collaborators\<close>

text \<open>A \<open>File\<close>: its name and media type; the bytes are read only by the collaborators.\<close>

record File =
  name :: string
  type :: string
  bytes :: "nat list"

text \<open>
  A JavaScript number that holds a page number or a page count is a rational: the bounds
  of the page range are \<open>Number(e.target.value)\<close> of the two inputs, passed through
  \<open>Math.max(1, _)\<close> and \<open>Math.min(totalPages, _)\<close> and never rounded, so they need not be
  whole.

  The document \<open>pdfjsLib.getDocument(...).promise\<close> resolves to. \<open>getPage i\<close> is the
  \<open>str\<close> of each item of \<open>getTextContent()\<close> of page \<open>i\<close>, \<open>None\<close> when either promise
  rejects; \<open>i\<close> is whatever number the caller passes.
\<close>

record PdfDocument =
  numPages :: rat
  getPage :: "rat \<Rightarrow> string list option"

text \<open>
  What the awaited promises settle to, \<open>None\<close> for a rejection:
  \<open>readAsDataURL\<close> is the \<open>FileReader\<close> result, \<open>getDocument\<close> is \<open>file.arrayBuffer()\<close>
  followed by \<open>pdfjsLib.getDocument\<close>, \<open>extractRawText\<close> is \<open>file.arrayBuffer()\<close> followed
  by \<open>mammoth.extractRawText(...).value\<close>, \<open>file_text\<close> is \<open>file.text()\<close>, and
  \<open>generateQuestions\<close> is the promise of \<open>services/geminiService.ts\<close>, whose outcome the
  remote model decides.
\<close>

record Env =
  readAsDataURL :: "File \<Rightarrow> string option"
  getDocument :: "File \<Rightarrow> PdfDocument option"
  extractRawText :: "File \<Rightarrow> string option"
  file_text :: "File \<Rightarrow> string option"
  generateQuestions ::
    "StudyMaterial \<Rightarrow> QuestionType \<Rightarrow> int \<Rightarrow> Language \<Rightarrow> Question list option"

section \<open>String helpers of the JavaScript runtime\<close>

text \<open>\<open>s.split(c)\<close> for a one-character separator: never empty, \<open>''.split(c) = ['']\<close>.\<close>

fun split :: "char \<Rightarrow> string \<Rightarrow> string list" where
  "split c [] = [[]]"
| "split c (x # xs) =
     (if x = c then [] # split c xs
      else (case split c xs of [] \<Rightarrow> [[x]] | p # ps \<Rightarrow> (x # p) # ps))"

text \<open>\<open>xs[i]\<close>, \<open>undefined\<close> out of range.\<close>

definition at :: "'a list \<Rightarrow> nat \<Rightarrow> 'a option" where
  "at xs i = (if i < length xs then Some (xs ! i) else None)"

text \<open>\<open>xs.join(sep)\<close>.\<close>

fun join :: "string \<Rightarrow> string list \<Rightarrow> string" where
  "join sep [] = []"
| "join sep [x] = x"
| "join sep (x # y # ys) = x @ sep @ join sep (y # ys)"

definition startsWith :: "string \<Rightarrow> string \<Rightarrow> bool" where
  "startsWith s p = (take (length p) s = p)"

definition endsWith :: "string \<Rightarrow> string \<Rightarrow> bool" where
  "endsWith s p = (length p \<le> length s \<and> drop (length s - length p) s = p)"

text \<open>\<open>String(b)\<close> for a boolean.\<close>

definition String :: "bool \<Rightarrow> string" where
  "String b = (if b then ''true'' else ''false'')"

text \<open>A possibly undefined string inside a template literal.\<close>

definition interpolate :: "string option \<Rightarrow> string" where
  "interpolate v = (case v of None \<Rightarrow> ''undefined'' | Some x \<Rightarrow> x)"

text \<open>Truthiness of a study material: only the empty string is falsy.\<close>

fun truthy :: "StudyMaterial \<Rightarrow> bool" where
  "truthy (Text x) = (x \<noteq> [])"
| "truthy (Image p) = True"

section \<open>The state of the App component\<close>

record AppState =
  stage :: AppStage
  studyMaterial :: "StudyMaterial option"
  questionType :: "QuestionType option"
  questionCount :: int
  questions :: "Question list"
  currentQuestionIndex :: nat
  userAnswers :: "nat \<rightharpoonup> string"
  feedback :: "nat \<rightharpoonup> string"
  error :: "string option"
  isParsing :: bool
  isDragOver :: bool
  fileName :: string
  currentFile :: "File option"
  totalPages :: rat
  startPage :: rat
  endPage :: rat

text \<open>
  The \<open>useState\<close> cells of \<open>App\<close>; \<open>currentFile\<close> is the cell the source calls \<open>file\<close>.
  \<open>initial\<close> holds their values at the first render.
\<close>

definition initial :: AppState where
  "initial =
     \<lparr>stage = WELCOME, studyMaterial = None, questionType = None, questionCount = 5,
      questions = [], currentQuestionIndex = 0, userAnswers = Map.empty,
      feedback = Map.empty, error = None, isParsing = False, isDragOver = False,
      fileName = [], currentFile = None, totalPages = 0, startPage = 1, endPage = 1\<rparr>"

text \<open>
  Every handler is a closure of one render of \<open>App\<close>. It reads the constants of that
  render (the state \<open>r\<close>), and its setters replace fields of the pending state \<open>s\<close>, which
  the next render shows. A handler that a user event invokes runs against the latest
  render, so \<open>r = s\<close> when it starts. The part of an asynchronous handler that runs after
  its \<open>await\<close> still reads \<open>r\<close>, and writes to the state as it is by then.
  \<open>t\<close> is the translation function of \<open>useLocalization\<close>.
\<close>

subsection \<open>fileToBase64\<close>

definition fileToBase64 :: "Env \<Rightarrow> File \<Rightarrow> string option option" where
  "fileToBase64 env f =
     (case readAsDataURL env f of
        None \<Rightarrow> None
      | Some result \<Rightarrow> Some (at (split CHR '','' result) 1))"

subsection \<open>handleAnalyze\<close>

text \<open>The second component tells whether the 1500 ms timer was started.\<close>

definition handleAnalyze ::
  "(string \<Rightarrow> string) \<Rightarrow> AppState \<Rightarrow> AppState \<Rightarrow> AppState \<times> bool" where
  "handleAnalyze t r s =
     (if (case studyMaterial r of None \<Rightarrow> True | Some m \<Rightarrow> \<not> truthy m)
      then (s\<lparr>error := Some (t ''error_no_text'')\<rparr>, False)
      else (s\<lparr>error := None, stage := PROCESSING\<rparr>, True))"

text \<open>The callback of the timer.\<close>

definition analyzeTimeout :: "AppState \<Rightarrow> AppState" where
  "analyzeTimeout s = s\<lparr>stage := SELECT_TYPE\<rparr>"

subsection \<open>processFile\<close>

text \<open>The setters before the \<open>try\<close> block.\<close>

definition processFile_begin :: "File \<Rightarrow> AppState \<Rightarrow> AppState" where
  "processFile_begin f s =
     s\<lparr>isParsing := True, fileName := name f, error := None, studyMaterial := None,
       currentFile := Some f\<rparr>"

text \<open>The \<open>catch\<close> block.\<close>

definition processFile_catch :: "(string \<Rightarrow> string) \<Rightarrow> AppState \<Rightarrow> AppState" where
  "processFile_catch t s =
     s\<lparr>error := Some (t ''error_parsing_failed''), fileName := [], currentFile := None,
       isParsing := False, stage := UPLOAD\<rparr>"

text \<open>
  The \<open>try\<close> block, once the awaited read has settled. \<open>handleAnalyze\<close> is the one of
  the same render, so it reads \<open>r\<close>.
\<close>

definition processFile_settle ::
  "Env \<Rightarrow> (string \<Rightarrow> string) \<Rightarrow> AppState \<Rightarrow> File \<Rightarrow> AppState \<Rightarrow> AppState \<times> bool" where
  "processFile_settle env t r f s =
     (if startsWith (type f) ''image/'' then
        (case fileToBase64 env f of
           None \<Rightarrow> (processFile_catch t s, False)
         | Some base64Data \<Rightarrow>
             handleAnalyze t r
               (s\<lparr>studyMaterial := Some (Image \<lparr>data = base64Data, mimeType = type f\<rparr>),
                  isParsing := False\<rparr>))
      else if type f = ''application/pdf'' then
        (case getDocument env f of
           None \<Rightarrow> (processFile_catch t s, False)
         | Some pdf \<Rightarrow>
             (s\<lparr>totalPages := numPages pdf, startPage := 1, endPage := numPages pdf,
                stage := SELECT_PAGE_RANGE, isParsing := False\<rparr>, False))
      else if endsWith (name f) ''.docx'' then
        (case extractRawText env f of
           None \<Rightarrow> (processFile_catch t s, False)
         | Some txt \<Rightarrow>
             handleAnalyze t r (s\<lparr>studyMaterial := Some (Text txt), isParsing := False\<rparr>))
      else if type f = ''text/plain'' then
        (case file_text env f of
           None \<Rightarrow> (processFile_catch t s, False)
         | Some txt \<Rightarrow>
             handleAnalyze t r (s\<lparr>studyMaterial := Some (Text txt), isParsing := False\<rparr>))
      else (processFile_catch t s, False))"

text \<open>\<open>processFile\<close> run from a render \<open>s\<close> with no other event in between.\<close>

definition processFile ::
  "Env \<Rightarrow> (string \<Rightarrow> string) \<Rightarrow> File \<Rightarrow> AppState \<Rightarrow> AppState \<times> bool" where
  "processFile env t f s = processFile_settle env t s f (processFile_begin f s)"

subsection \<open>handleConfirmPageRange\<close>

text \<open>
  The guard and the setters before the \<open>try\<close> block; the second component is the file
  the \<open>try\<close> block is going to read, \<open>None\<close> after the early return.
\<close>

definition handleConfirmPageRange_begin ::
  "(string \<Rightarrow> string) \<Rightarrow> AppState \<Rightarrow> AppState \<Rightarrow> AppState \<times> File option" where
  "handleConfirmPageRange_begin t r s =
     (case currentFile r of
        None \<Rightarrow> (s\<lparr>error := Some (t ''error_invalid_page_range'')\<rparr>, None)
      | Some f \<Rightarrow>
          if startPage r > endPage r \<or> startPage r < 1 \<or> endPage r > totalPages r
          then (s\<lparr>error := Some (t ''error_invalid_page_range'')\<rparr>, None)
          else (s\<lparr>error := None, stage := PROCESSING\<rparr>, Some f))"

text \<open>The \<open>for\<close> loop: \<open>i\<close> is the counter, \<open>extractedText\<close> the accumulator.\<close>

function extractPages :: "PdfDocument \<Rightarrow> rat \<Rightarrow> rat \<Rightarrow> string \<Rightarrow> string option" where
  "extractPages pdf i e extractedText =
     (if i \<le> e then
        (case getPage pdf i of
           None \<Rightarrow> None
         | Some items \<Rightarrow>
             extractPages pdf (i + 1) e
               (extractedText @ join '' '' items @ [CHR 0x0A, CHR 0x0A]))
      else Some extractedText)"
  by pat_completeness auto
termination
proof (relation "measure (\<lambda>(pdf, i, e, acc). nat \<lfloor>e + 1 - i\<rfloor>)")
  show "wf (measure (\<lambda>(pdf, i, e, acc). nat \<lfloor>e + 1 - i\<rfloor>))"
    by simp
next
  fix pdf :: PdfDocument and i e :: rat and extractedText :: string and items :: "string list"
  assume le: "i \<le> e"
  have "\<lfloor>e + 1 - (i + 1)\<rfloor> = \<lfloor>e + 1 - i\<rfloor> - 1"
    by (simp add: algebra_simps) linarith
  moreover have "1 \<le> \<lfloor>e + 1 - i\<rfloor>"
    using le by (simp add: le_floor_iff)
  ultimately show "((pdf, i + 1, e, extractedText @ join '' '' items @ [CHR 0x0A, CHR 0x0A]),
      (pdf, i, e, extractedText)) \<in> measure (\<lambda>(pdf, i, e, acc). nat \<lfloor>e + 1 - i\<rfloor>)"
    by simp
qed

declare extractPages.simps [simp del]

definition handleConfirmPageRange_catch ::
  "(string \<Rightarrow> string) \<Rightarrow> AppState \<Rightarrow> AppState" where
  "handleConfirmPageRange_catch t s =
     s\<lparr>error := Some (t ''error_parsing_failed''), stage := UPLOAD\<rparr>"

definition handleConfirmPageRange_settle ::
  "Env \<Rightarrow> (string \<Rightarrow> string) \<Rightarrow> AppState \<Rightarrow> File \<Rightarrow> AppState \<Rightarrow> AppState" where
  "handleConfirmPageRange_settle env t r f s =
     (case getDocument env f of
        None \<Rightarrow> handleConfirmPageRange_catch t s
      | Some pdf \<Rightarrow>
          (case extractPages pdf (startPage r) (endPage r) [] of
             None \<Rightarrow> handleConfirmPageRange_catch t s
           | Some extractedText \<Rightarrow>
               s\<lparr>studyMaterial := Some (Text extractedText), stage := SELECT_TYPE\<rparr>))"

definition handleConfirmPageRange ::
  "Env \<Rightarrow> (string \<Rightarrow> string) \<Rightarrow> AppState \<Rightarrow> AppState" where
  "handleConfirmPageRange env t s =
     (case handleConfirmPageRange_begin t s s of
        (s1, None) \<Rightarrow> s1
      | (s1, Some f) \<Rightarrow> handleConfirmPageRange_settle env t s f s1)"

subsection \<open>handleSelectType, handleGenerateQuestions\<close>

definition handleSelectType :: "QuestionType \<Rightarrow> AppState \<Rightarrow> AppState" where
  "handleSelectType ty s = s\<lparr>questionType := Some ty, stage := SELECT_COUNT\<rparr>"

text \<open>
  The guard and the setters before the \<open>try\<close> block; the second component holds the
  arguments of the generator call, \<open>None\<close> after the early return.
\<close>

definition handleGenerateQuestions_begin ::
  "AppState \<Rightarrow> AppState \<Rightarrow> AppState \<times> (StudyMaterial \<times> QuestionType \<times> int) option" where
  "handleGenerateQuestions_begin r s =
     (case questionType r of
        None \<Rightarrow> (s, None)
      | Some ty \<Rightarrow>
          (case studyMaterial r of
             None \<Rightarrow> (s, None)
           | Some m \<Rightarrow>
               if \<not> truthy m then (s, None)
               else (s\<lparr>stage := GENERATING, error := None\<rparr>, Some (m, ty, questionCount r))))"

text \<open>The rest of the \<open>try\<close> block and the \<open>catch\<close> block, given what the call settled to.\<close>

definition handleGenerateQuestions_settle ::
  "(string \<Rightarrow> string) \<Rightarrow> Question list option \<Rightarrow> AppState \<Rightarrow> AppState" where
  "handleGenerateQuestions_settle t outcome s =
     (case outcome of
        None \<Rightarrow> s\<lparr>error := Some (t ''error_generation_failed''), stage := SELECT_COUNT\<rparr>
      | Some generated \<Rightarrow>
          if length generated = 0
          then s\<lparr>error := Some (t ''error_generation_failed''), stage := SELECT_COUNT\<rparr>
          else s\<lparr>questions := generated, currentQuestionIndex := 0,
                 userAnswers := Map.empty, feedback := Map.empty, stage := ANSWERING\<rparr>)"

definition handleGenerateQuestions ::
  "Env \<Rightarrow> (string \<Rightarrow> string) \<Rightarrow> Language \<Rightarrow> AppState \<Rightarrow> AppState" where
  "handleGenerateQuestions env t language s =
     (case handleGenerateQuestions_begin s s of
        (s1, None) \<Rightarrow> s1
      | (s1, Some (m, ty, n)) \<Rightarrow>
          handleGenerateQuestions_settle t (generateQuestions env m ty n language) s1)"

subsection \<open>The quiz\<close>

definition handleAnswerSelect :: "string \<Rightarrow> AppState \<Rightarrow> AppState" where
  "handleAnswerSelect a s = s\<lparr>userAnswers := (userAnswers s)(currentQuestionIndex s \<mapsto> a)\<rparr>"

text \<open>
  \<open>questions[currentQuestionIndex]\<close> is \<open>undefined\<close> out of range, and \<open>'options' in
  undefined\<close> throws a \<open>TypeError\<close>.
\<close>

datatype exn = TypeError

definition handleCheckAnswer :: "(string \<Rightarrow> string) \<Rightarrow> AppState \<Rightarrow> exn + AppState" where
  "handleCheckAnswer t s =
     (case at (questions s) (currentQuestionIndex s) of
        None \<Rightarrow> Inl TypeError
      | Some currentQuestion \<Rightarrow>
          (let userAnswer = userAnswers s (currentQuestionIndex s);
               (isCorrect, correctAnswerText) =
                 (if options currentQuestion \<noteq> None then
                    (userAnswer = correctAnswer currentQuestion,
                     interpolate (correctAnswer currentQuestion))
                  else
                    (case answer currentQuestion of
                       Some b \<Rightarrow>
                         (userAnswer = Some (String b), if b then t ''true'' else t ''false'')
                     | None \<Rightarrow> (False, [])))
           in if isCorrect then
                Inr (s\<lparr>feedback := (feedback s)(currentQuestionIndex s \<mapsto> t ''correct_feedback'')\<rparr>)
              else
                Inr (s\<lparr>feedback := (feedback s)(currentQuestionIndex s \<mapsto>
                         t ''incorrect_feedback'' @ '' '' @ correctAnswerText)\<rparr>)))"

definition handleNextQuestion :: "AppState \<Rightarrow> AppState" where
  "handleNextQuestion s =
     (if int (currentQuestionIndex s) < int (length (questions s)) - 1
      then s\<lparr>currentQuestionIndex := currentQuestionIndex s + 1\<rparr>
      else s\<lparr>stage := COMPLETED\<rparr>)"

definition handleGenerateMore :: "AppState \<Rightarrow> AppState" where
  "handleGenerateMore s =
     s\<lparr>questions := [], currentQuestionIndex := 0, userAnswers := Map.empty,
       feedback := Map.empty, error := None, questionType := None, questionCount := 5,
       stage := SELECT_TYPE\<rparr>"

definition handleReturnToStart :: "AppState \<Rightarrow> AppState" where
  "handleReturnToStart s =
     s\<lparr>questions := [], currentQuestionIndex := 0, userAnswers := Map.empty,
       feedback := Map.empty, error := None, questionType := None, questionCount := 5,
       stage := UPLOAD\<rparr>"

definition handleResetUpload :: "AppState \<Rightarrow> AppState" where
  "handleResetUpload s =
     s\<lparr>studyMaterial := None, fileName := [], currentFile := None, totalPages := 0,
       startPage := 1, endPage := 1, error := None\<rparr>"

definition handleBack :: "AppState \<Rightarrow> AppState" where
  "handleBack s =
     (case stage s of
        SELECT_PAGE_RANGE \<Rightarrow> (handleResetUpload (s\<lparr>error := None\<rparr>))\<lparr>stage := UPLOAD\<rparr>
      | SELECT_TYPE \<Rightarrow> s\<lparr>error := None, stage := UPLOAD\<rparr>
      | SELECT_COUNT \<Rightarrow> s\<lparr>error := None, stage := SELECT_TYPE\<rparr>
      | ANSWERING \<Rightarrow>
          s\<lparr>error := None, questions := [], currentQuestionIndex := 0,
            userAnswers := Map.empty, feedback := Map.empty, stage := SELECT_TYPE\<rparr>
      | _ \<Rightarrow> s\<lparr>error := None\<rparr>)"

section \<open>Example sessions\<close>

text \<open>A translation table that returns every key as it is.\<close>

definition t_id :: "string \<Rightarrow> string" where
  "t_id k = k"

definition slides_pdf :: File where
  "slides_pdf = \<lparr>name = ''slides.pdf'', type = ''application/pdf'', bytes = []\<rparr>"

definition photo_png :: File where
  "photo_png = \<lparr>name = ''photo.png'', type = ''image/png'', bytes = []\<rparr>"

definition notes_txt :: File where
  "notes_txt = \<lparr>name = ''notes.txt'', type = ''text/plain'', bytes = []\<rparr>"

text \<open>
  A document of ten pages; pages 3 and 4 hold two text items each, the others none. Any
  other number, whole or not, is no page of it.
\<close>

definition ex_items :: "int \<Rightarrow> string list" where
  "ex_items k =
     (if k = 3 then [''third'', ''page''] else if k = 4 then [''fourth'', ''page''] else [])"

definition ex_pdf :: PdfDocument where
  "ex_pdf =
     \<lparr>numPages = 10,
      getPage = map_of
        [(1, ex_items 1), (2, ex_items 2), (3, ex_items 3), (4, ex_items 4), (5, ex_items 5),
         (6, ex_items 6), (7, ex_items 7), (8, ex_items 8), (9, ex_items 9),
         (10, ex_items 10)]\<rparr>"

text \<open>
  Collaborators that read every file, open every PDF file as \<open>ex_pdf\<close>, know no Word
  document, and a generator that returns no question.
\<close>

definition ex_env :: Env where
  "ex_env =
     \<lparr>readAsDataURL = (\<lambda>f. Some (''data:'' @ type f @ '';base64,aGk='')),
      getDocument = (\<lambda>f. if type f = ''application/pdf'' then Some ex_pdf else None),
      extractRawText = (\<lambda>f. None),
      file_text = (\<lambda>f. Some ''plain notes''),
      generateQuestions = (\<lambda>m ty n l. Some [])\<rparr>"

text \<open>The upload screen right after the welcome screen, and after typing into the text area.\<close>

definition upload_empty :: AppState where
  "upload_empty = initial\<lparr>stage := UPLOAD\<rparr>"

definition typed_notes :: AppState where
  "typed_notes = initial\<lparr>stage := UPLOAD, studyMaterial := Some (Text ''my notes'')\<rparr>"

text \<open>The page-range screen of \<open>slides_pdf\<close> with the bounds edited.\<close>

definition range_3_4 :: AppState where
  "range_3_4 =
     initial\<lparr>stage := SELECT_PAGE_RANGE, fileName := ''slides.pdf'',
       currentFile := Some slides_pdf, totalPages := 10, startPage := 3, endPage := 4\<rparr>"

definition range_5_2 :: AppState where
  "range_5_2 =
     initial\<lparr>stage := SELECT_PAGE_RANGE, fileName := ''slides.pdf'',
       currentFile := Some slides_pdf, totalPages := 10, startPage := 5, endPage := 2\<rparr>"

definition range_half_4 :: AppState where
  "range_half_4 =
     initial\<lparr>stage := SELECT_PAGE_RANGE, fileName := ''slides.pdf'',
       currentFile := Some slides_pdf, totalPages := 10, startPage := 5 / 2, endPage := 4\<rparr>"

text \<open>The count screen with and without a question type.\<close>

definition ready_to_generate :: AppState where
  "ready_to_generate =
     initial\<lparr>stage := SELECT_COUNT, studyMaterial := Some (Text ''my notes''),
       questionType := Some MultipleChoice\<rparr>"

definition no_type_chosen :: AppState where
  "no_type_chosen = initial\<lparr>stage := SELECT_COUNT, studyMaterial := Some (Text ''my notes'')\<rparr>"

text \<open>Questions, and the answering screen of a one-question quiz with an answer selected.\<close>

definition capital_mcq :: Question where
  "capital_mcq =
     \<lparr>question = ''Capital of France?'', options = Some [''Paris'', ''Rome'', ''Oslo'', ''Bern''],
      correctAnswer = Some ''Paris'', answer = None\<rparr>"

definition sky_tfq :: Question where
  "sky_tfq =
     \<lparr>question = ''The sky is green.'', options = None, correctAnswer = None,
      answer = Some False\<rparr>"

definition bare_question :: Question where
  "bare_question = \<lparr>question = ''Why?'', options = None, correctAnswer = None, answer = None\<rparr>"

definition answering :: "Question \<Rightarrow> string \<Rightarrow> AppState" where
  "answering q a =
     initial\<lparr>stage := ANSWERING, studyMaterial := Some (Text ''my notes''), questions := [q],
       userAnswers := [0 \<mapsto> a]\<rparr>"

text \<open>
  Two files dropped one after the other on the upload screen of \<open>typed_notes\<close>, before
  either has been read: \<open>notes_txt\<close>, then \<open>slides_pdf\<close> (the drop zone stays active while
  \<open>isParsing\<close> holds). \<open>notes_txt\<close> settles first, in the render it was dropped in; then
  \<open>slides_pdf\<close> settles, in the render after the first drop; then the user presses the back
  button of the page-range screen.
\<close>

definition two_drops :: AppState where
  "two_drops = processFile_begin slides_pdf (processFile_begin notes_txt typed_notes)"

definition notes_settled :: "AppState \<times> bool" where
  "notes_settled = processFile_settle ex_env t_id typed_notes notes_txt two_drops"

definition slides_settled :: "AppState \<times> bool" where
  "slides_settled =
     processFile_settle ex_env t_id (processFile_begin notes_txt typed_notes) slides_pdf
       (fst notes_settled)"

definition gone_back :: AppState where
  "gone_back = handleBack (fst slides_settled)"

section \<open>Page-range extraction\<close>

text \<open>
  From a whole number \<open>a\<close> to a whole number \<open>b\<close>, the loop visits the pages \<open>a\<close>, \<open>a + 1\<close>,
  ..., \<open>b\<close> in ascending order and appends, for each one, its items joined with single
  spaces and then two newlines.
\<close>

lemma extractPages_upto:
  "(\<And>k. a \<le> k \<Longrightarrow> k \<le> b \<Longrightarrow> getPage pdf (of_int k) = Some (items k)) \<Longrightarrow>
   extractPages pdf (of_int a) (of_int b) acc =
     Some (acc @ concat (map (\<lambda>k. join '' '' (items k) @ [CHR 0x0A, CHR 0x0A]) [a..b]))"
proof (induction a b arbitrary: acc rule: upto.induct)
  case (1 a b)
  show ?case
  proof (cases "a \<le> b")
    case True
    have here: "getPage pdf (of_int a) = Some (items a)"
      using True "1.prems" by simp
    have rest:
      "extractPages pdf (of_int a + 1) (of_int b)
         (acc @ join '' '' (items a) @ [CHR 0x0A, CHR 0x0A]) =
       Some ((acc @ join '' '' (items a) @ [CHR 0x0A, CHR 0x0A]) @
         concat (map (\<lambda>k. join '' '' (items k) @ [CHR 0x0A, CHR 0x0A]) [a + 1..b]))"
      using "1.IH" [OF True, of "acc @ join '' '' (items a) @ [CHR 0x0A, CHR 0x0A]"] "1.prems"
      by simp
    have "[a..b] = a # [a + 1..b]"
      using True by (simp add: upto_rec1)
    then show ?thesis
      using True here rest by (subst extractPages.simps) simp
  next
    case False
    then show ?thesis
      by (subst extractPages.simps) simp
  qed
qed

text \<open>
  C1. With a file loaded and bounds that are whole numbers \<open>a\<close> and \<open>b\<close> with
  \<open>1 \<le> a \<le> b \<le> totalPages\<close>, when the document opens and every page from \<open>a\<close> to \<open>b\<close> can
  be read, confirming the range clears the error, sets the stage to \<open>SELECT_TYPE\<close> and sets
  the study material to the text made of the pages \<open>a\<close> to \<open>b\<close> in ascending order, each
  page being its items joined with single spaces and followed by two newlines: the last
  page is followed by them too. For the range 3 to 4 this is the text of page 3, two
  newlines, the text of page 4, two newlines.
\<close>

theorem confirm_page_range_extracts:
  assumes "currentFile s = Some f"
    and "startPage s = of_int a" and "endPage s = of_int b"
    and "1 \<le> a" and "a \<le> b" and "of_int b \<le> totalPages s"
    and "getDocument env f = Some pdf"
    and "\<forall>k\<in>{a..b}. getPage pdf (of_int k) = Some (items k)"
  shows "handleConfirmPageRange env t s =
      s\<lparr>error := None, stage := SELECT_TYPE,
        studyMaterial := Some (Text (concat
          (map (\<lambda>k. join '' '' (items k) @ [CHR 0x0A, CHR 0x0A]) [a..b])))\<rparr>
    \<and> (a = 3 \<and> b = 4 \<longrightarrow>
        studyMaterial (handleConfirmPageRange env t s) =
          Some (Text (join '' '' (items 3) @ [CHR 0x0A, CHR 0x0A]
            @ join '' '' (items 4) @ [CHR 0x0A, CHR 0x0A])))"
proof -
  have loop: "extractPages pdf (of_int a) (of_int b) [] =
     Some ([] @ concat (map (\<lambda>k. join '' '' (items k) @ [CHR 0x0A, CHR 0x0A]) [a..b]))"
    using assms(8) by (intro extractPages_upto) simp
  have guard: "\<not> (startPage s > endPage s \<or> startPage s < 1 \<or> endPage s > totalPages s)"
    using assms(2-6) by simp
  have run: "handleConfirmPageRange env t s =
      s\<lparr>error := None, stage := SELECT_TYPE,
        studyMaterial := Some (Text (concat
          (map (\<lambda>k. join '' '' (items k) @ [CHR 0x0A, CHR 0x0A]) [a..b])))\<rparr>"
    using loop guard assms(1-3,7)
    by (simp add: handleConfirmPageRange_def handleConfirmPageRange_begin_def
        handleConfirmPageRange_settle_def)
  have two: "[3..4] = [3, 4::int]"
    by (simp add: upto_rec1)
  show ?thesis
    using run two by simp
qed

text \<open>Pages 3 to 4 of the ten-page example document.\<close>

theorem confirm_page_range_extracts_witness:
  "currentFile range_3_4 = Some slides_pdf
   \<and> startPage range_3_4 = of_int 3 \<and> endPage range_3_4 = of_int 4
   \<and> (1::int) \<le> 3 \<and> (3::int) \<le> 4 \<and> of_int 4 \<le> totalPages range_3_4
   \<and> getDocument ex_env slides_pdf = Some ex_pdf
   \<and> getPage ex_pdf (of_int 3) = Some (ex_items 3)
   \<and> getPage ex_pdf (of_int 4) = Some (ex_items 4)
   \<and> stage (handleConfirmPageRange ex_env t_id range_3_4) = SELECT_TYPE
   \<and> studyMaterial (handleConfirmPageRange ex_env t_id range_3_4) =
       Some (Text (''third page'' @ [CHR 0x0A, CHR 0x0A] @ ''fourth page''
         @ [CHR 0x0A, CHR 0x0A]))"
proof -
  have "{3..4::int} = {3, 4}"
    by auto
  then have pages: "\<forall>k\<in>{3..4::int}. getPage ex_pdf (of_int k) = Some (ex_items k)"
    by (simp add: ex_pdf_def)
  have facts: "currentFile range_3_4 = Some slides_pdf"
    "startPage range_3_4 = of_int 3" "endPage range_3_4 = of_int 4"
    "(1::int) \<le> 3" "(3::int) \<le> 4" "of_int 4 \<le> totalPages range_3_4"
    "getDocument ex_env slides_pdf = Some ex_pdf"
    by (simp_all add: range_3_4_def initial_def ex_env_def slides_pdf_def)
  show ?thesis
    using confirm_page_range_extracts [OF facts pages, of t_id] facts
    by (simp add: range_3_4_def initial_def ex_pdf_def ex_items_def)
qed

text \<open>
  The same run does not return the text of page 3, two newlines and the text of page 4:
  two more newlines follow. And with the bounds 2.5 and 4, which satisfy the same
  inequalities and pass the guard, the first read is of page 2.5, which the document does
  not have: the run ends in the \<open>catch\<close> block, with no text and the stage \<open>UPLOAD\<close>.
\<close>

theorem confirm_page_range_trailing_newlines:
  "studyMaterial (handleConfirmPageRange ex_env t_id range_3_4) \<noteq>
     Some (Text (join '' '' (ex_items 3) @ [CHR 0x0A, CHR 0x0A] @ join '' '' (ex_items 4)))
   \<and> studyMaterial (handleConfirmPageRange ex_env t_id range_3_4) =
     Some (Text (join '' '' (ex_items 3) @ [CHR 0x0A, CHR 0x0A] @ join '' '' (ex_items 4)
       @ [CHR 0x0A, CHR 0x0A]))
   \<and> 1 \<le> startPage range_half_4 \<and> startPage range_half_4 \<le> endPage range_half_4
   \<and> endPage range_half_4 \<le> totalPages range_half_4
   \<and> handleConfirmPageRange ex_env t_id range_half_4 =
     range_half_4\<lparr>error := Some ''error_parsing_failed'', stage := UPLOAD\<rparr>
   \<and> studyMaterial (handleConfirmPageRange ex_env t_id range_half_4) = None"
  by (simp add: handleConfirmPageRange_def handleConfirmPageRange_begin_def
      handleConfirmPageRange_settle_def handleConfirmPageRange_catch_def extractPages.simps
      range_3_4_def range_half_4_def initial_def ex_env_def slides_pdf_def ex_pdf_def
      ex_items_def t_id_def)

section \<open>Loading a file\<close>

text \<open>
  C2. Loading an image file from the upload screen of a fresh session, where the render
  holds no study material: the image part is stored with the base64 payload and the
  file's media type, but the \<open>handleAnalyze\<close> that \<open>processFile\<close> calls still reads the
  study material of that render, so it reports \<open>error_no_text\<close>, starts no timer, and the
  stage stays \<open>UPLOAD\<close>.
\<close>

theorem image_load_reports_no_text:
  "processFile ex_env t_id photo_png upload_empty =
     (upload_empty\<lparr>fileName := ''photo.png'', currentFile := Some photo_png,
        studyMaterial := Some (Image \<lparr>data = Some ''aGk='', mimeType = ''image/png''\<rparr>),
        error := Some ''error_no_text''\<rparr>, False)
   \<and> stage (fst (processFile ex_env t_id photo_png upload_empty)) = UPLOAD"
  by (simp add: processFile_def processFile_begin_def processFile_settle_def handleAnalyze_def
      fileToBase64_def startsWith_def at_def t_id_def photo_png_def ex_env_def
      upload_empty_def initial_def)

text \<open>
  In general, an image file that can be read reaches \<open>PROCESSING\<close> exactly when the render
  it was loaded in already held a non-empty study material.
\<close>

lemma image_load_stage:
  assumes "startsWith (type f) ''image/''" and "readAsDataURL env f = Some url"
  shows "stage (fst (processFile env t f s)) =
     (if (case studyMaterial s of None \<Rightarrow> True | Some m \<Rightarrow> \<not> truthy m) then stage s
      else PROCESSING)"
  using assms
  by (simp add: processFile_def processFile_begin_def processFile_settle_def handleAnalyze_def
      fileToBase64_def)

text \<open>
  C8. Loading a file of media type \<open>application/pdf\<close> that opens as a document of
  \<open>numPages pdf\<close> pages sets \<open>totalPages\<close> to that number, \<open>startPage\<close> to 1, \<open>endPage\<close> to
  that number and the stage to \<open>SELECT_PAGE_RANGE\<close>, from every state; no timer is started.
\<close>

theorem pdf_load_selects_page_range:
  assumes "type f = ''application/pdf''" and "getDocument env f = Some pdf"
  shows "processFile env t f s =
     (s\<lparr>isParsing := False, fileName := name f, error := None, studyMaterial := None,
        currentFile := Some f, totalPages := numPages pdf, startPage := 1,
        endPage := numPages pdf, stage := SELECT_PAGE_RANGE\<rparr>, False)"
  using assms
  by (simp add: processFile_def processFile_begin_def processFile_settle_def startsWith_def)

text \<open>The ten-page example document loaded from the empty upload screen.\<close>

theorem pdf_load_selects_page_range_witness:
  "type slides_pdf = ''application/pdf'' \<and> getDocument ex_env slides_pdf = Some ex_pdf
   \<and> numPages ex_pdf = 10
   \<and> processFile ex_env t_id slides_pdf upload_empty =
     (upload_empty\<lparr>fileName := ''slides.pdf'', currentFile := Some slides_pdf,
        totalPages := 10, startPage := 1, endPage := 10, stage := SELECT_PAGE_RANGE\<rparr>, False)"
  using pdf_load_selects_page_range [of slides_pdf ex_env ex_pdf t_id upload_empty]
  by (simp add: slides_pdf_def ex_env_def ex_pdf_def upload_empty_def initial_def)

section \<open>Invalid page ranges\<close>

text \<open>
  C3. When \<open>startPage > endPage\<close>, \<open>startPage < 1\<close> or \<open>endPage > totalPages\<close>, confirming
  the range only sets the error to \<open>error_invalid_page_range\<close>: the stage and every other
  field stay as they were, and the handler returns before the \<open>try\<close> block, so no file
  is read, whatever the collaborators are.
\<close>

theorem invalid_range_rejected:
  assumes "startPage s > endPage s \<or> startPage s < 1 \<or> endPage s > totalPages s"
  shows "handleConfirmPageRange env t s = s\<lparr>error := Some (t ''error_invalid_page_range'')\<rparr>
    \<and> handleConfirmPageRange_begin t s s =
        (s\<lparr>error := Some (t ''error_invalid_page_range'')\<rparr>, None)
    \<and> stage (handleConfirmPageRange env t s) = stage s"
  using assms
  by (auto simp add: handleConfirmPageRange_def handleConfirmPageRange_begin_def
      split: option.splits)

text \<open>The range 5 to 2 on the page-range screen.\<close>

theorem invalid_range_rejected_witness:
  "startPage range_5_2 > endPage range_5_2
   \<and> handleConfirmPageRange ex_env t_id range_5_2 =
       range_5_2\<lparr>error := Some ''error_invalid_page_range''\<rparr>
   \<and> stage (handleConfirmPageRange ex_env t_id range_5_2) = SELECT_PAGE_RANGE"
  using invalid_range_rejected [of range_5_2 ex_env t_id]
  by (simp add: range_5_2_def initial_def t_id_def)

section \<open>Generation\<close>

text \<open>
  C4. When a question type is set, the study material is present and non-empty, and
  the generator call rejects or resolves to an empty list, the generate action ends with
  the error \<open>error_generation_failed\<close> and the stage \<open>SELECT_COUNT\<close>, and changes nothing
  else: \<open>questionType\<close>, \<open>questionCount\<close> and \<open>studyMaterial\<close> are as before.
\<close>

theorem generation_failure_returns_to_count:
  assumes "questionType s = Some ty" and "studyMaterial s = Some m" and "truthy m"
    and "generateQuestions env m ty (questionCount s) language = None
       \<or> generateQuestions env m ty (questionCount s) language = Some []"
  shows "handleGenerateQuestions env t language s =
      s\<lparr>stage := SELECT_COUNT, error := Some (t ''error_generation_failed'')\<rparr>
    \<and> questionType (handleGenerateQuestions env t language s) = questionType s
    \<and> questionCount (handleGenerateQuestions env t language s) = questionCount s
    \<and> studyMaterial (handleGenerateQuestions env t language s) = studyMaterial s"
  using assms
  by (auto simp add: handleGenerateQuestions_def handleGenerateQuestions_begin_def
      handleGenerateQuestions_settle_def)

text \<open>A generator called for 5 questions that returns none.\<close>

theorem generation_failure_returns_to_count_witness:
  "questionType ready_to_generate = Some MultipleChoice
   \<and> studyMaterial ready_to_generate = Some (Text ''my notes'')
   \<and> truthy (Text ''my notes'')
   \<and> questionCount ready_to_generate = 5
   \<and> generateQuestions ex_env (Text ''my notes'') MultipleChoice 5 EN = Some []
   \<and> handleGenerateQuestions ex_env t_id EN ready_to_generate =
       ready_to_generate\<lparr>stage := SELECT_COUNT, error := Some ''error_generation_failed''\<rparr>"
  using generation_failure_returns_to_count
    [of ready_to_generate MultipleChoice "Text ''my notes''" ex_env EN t_id]
  by (simp add: ready_to_generate_def initial_def ex_env_def t_id_def)

text \<open>
  C10. When no question type is set, or the study material is absent or the empty
  string, the generate action returns the state it was given: the stage, the error and
  every other field are unchanged, and no error is reported.
\<close>

theorem generate_without_type_or_material_is_noop:
  assumes "questionType s = None \<or> studyMaterial s = None \<or> studyMaterial s = Some (Text [])"
  shows "handleGenerateQuestions env t language s = s"
  using assms
  by (auto simp add: handleGenerateQuestions_def handleGenerateQuestions_begin_def
      split: option.splits)

text \<open>The count screen reached with no question type.\<close>

theorem generate_without_type_or_material_is_noop_witness:
  "questionType no_type_chosen = None
   \<and> handleGenerateQuestions ex_env t_id EN no_type_chosen = no_type_chosen
   \<and> stage (handleGenerateQuestions ex_env t_id EN no_type_chosen) = SELECT_COUNT
   \<and> error (handleGenerateQuestions ex_env t_id EN no_type_chosen) = None"
  using generate_without_type_or_material_is_noop [of no_type_chosen ex_env t_id EN]
  by (simp add: no_type_chosen_def initial_def)

section \<open>Checking an answer\<close>

text \<open>
  C5. For the current question \<open>q\<close>: if \<open>q\<close> has options and the correct answer \<open>c\<close>, the
  feedback written at the current index is \<open>t correct_feedback\<close> when the recorded answer
  is equal to \<open>c\<close>, and otherwise \<open>t incorrect_feedback\<close>, a space and \<open>c\<close>; if \<open>q\<close> has no
  options and the boolean answer \<open>b\<close>, the recorded answer is compared with \<open>String b\<close>, and
  the incorrect feedback ends with \<open>t true\<close> or \<open>t false\<close> according to \<open>b\<close>; and checking
  again in the resulting state gives that state again.
\<close>

theorem check_answer_feedback:
  assumes "at (questions s) (currentQuestionIndex s) = Some q"
  shows "(options q = Some os \<and> correctAnswer q = Some c \<longrightarrow>
      handleCheckAnswer t s =
        Inr (s\<lparr>feedback := (feedback s)(currentQuestionIndex s \<mapsto>
          (if userAnswers s (currentQuestionIndex s) = Some c then t ''correct_feedback''
           else t ''incorrect_feedback'' @ '' '' @ c))\<rparr>))
    \<and> (options q = None \<and> answer q = Some b \<longrightarrow>
      handleCheckAnswer t s =
        Inr (s\<lparr>feedback := (feedback s)(currentQuestionIndex s \<mapsto>
          (if userAnswers s (currentQuestionIndex s) = Some (String b)
           then t ''correct_feedback''
           else t ''incorrect_feedback'' @ '' '' @ (if b then t ''true'' else t ''false'')))\<rparr>))
    \<and> (handleCheckAnswer t s = Inr s' \<longrightarrow> handleCheckAnswer t s' = Inr s')"
proof (intro conjI impI)
  assume "options q = Some os \<and> correctAnswer q = Some c"
  then show "handleCheckAnswer t s =
        Inr (s\<lparr>feedback := (feedback s)(currentQuestionIndex s \<mapsto>
          (if userAnswers s (currentQuestionIndex s) = Some c then t ''correct_feedback''
           else t ''incorrect_feedback'' @ '' '' @ c))\<rparr>)"
    using assms by (simp add: handleCheckAnswer_def interpolate_def)
next
  assume "options q = None \<and> answer q = Some b"
  then show "handleCheckAnswer t s =
        Inr (s\<lparr>feedback := (feedback s)(currentQuestionIndex s \<mapsto>
          (if userAnswers s (currentQuestionIndex s) = Some (String b)
           then t ''correct_feedback''
           else t ''incorrect_feedback'' @ '' '' @ (if b then t ''true'' else t ''false'')))\<rparr>)"
    using assms by (simp add: handleCheckAnswer_def)
next
  assume "handleCheckAnswer t s = Inr s'"
  then obtain v where s': "s' = s\<lparr>feedback := (feedback s)(currentQuestionIndex s \<mapsto> v)\<rparr>"
    and v: "v =
      (let userAnswer = userAnswers s (currentQuestionIndex s);
           (isCorrect, correctAnswerText) =
             (if options q \<noteq> None then
                (userAnswer = correctAnswer q, interpolate (correctAnswer q))
              else
                (case answer q of
                   Some b \<Rightarrow> (userAnswer = Some (String b), if b then t ''true'' else t ''false'')
                 | None \<Rightarrow> (False, [])))
       in if isCorrect then t ''correct_feedback''
          else t ''incorrect_feedback'' @ '' '' @ correctAnswerText)"
    using assms by (auto simp add: handleCheckAnswer_def Let_def split: prod.splits if_splits)
  show "handleCheckAnswer t s' = Inr s'"
    using assms unfolding s' v
    by (auto simp add: handleCheckAnswer_def Let_def split: prod.splits option.splits)
qed

text \<open>
  A multiple-choice question answered wrongly, checked twice, and a true/false question
  answered wrongly.
\<close>

theorem check_answer_feedback_witness:
  "at (questions (answering capital_mcq ''Rome'')) 0 = Some capital_mcq
   \<and> options capital_mcq = Some [''Paris'', ''Rome'', ''Oslo'', ''Bern'']
   \<and> correctAnswer capital_mcq = Some ''Paris''
   \<and> handleCheckAnswer t_id (answering capital_mcq ''Rome'') =
       Inr ((answering capital_mcq ''Rome'')\<lparr>feedback := [0 \<mapsto> ''incorrect_feedback Paris'']\<rparr>)
   \<and> handleCheckAnswer t_id
        ((answering capital_mcq ''Rome'')\<lparr>feedback := [0 \<mapsto> ''incorrect_feedback Paris'']\<rparr>) =
       Inr ((answering capital_mcq ''Rome'')\<lparr>feedback := [0 \<mapsto> ''incorrect_feedback Paris'']\<rparr>)
   \<and> at (questions (answering sky_tfq ''true'')) 0 = Some sky_tfq
   \<and> options sky_tfq = None \<and> answer sky_tfq = Some False
   \<and> handleCheckAnswer t_id (answering sky_tfq ''true'') =
       Inr ((answering sky_tfq ''true'')\<lparr>feedback := [0 \<mapsto> ''incorrect_feedback false'']\<rparr>)"
  using check_answer_feedback
    [of "answering capital_mcq ''Rome''" capital_mcq
      "[''Paris'', ''Rome'', ''Oslo'', ''Bern'']" "''Paris''" t_id False
      "(answering capital_mcq ''Rome'')\<lparr>feedback := [0 \<mapsto> ''incorrect_feedback Paris'']\<rparr>"]
    check_answer_feedback
    [of "answering sky_tfq ''true''" sky_tfq "[]" "[]" t_id False "answering sky_tfq ''true''"]
  by (simp add: answering_def initial_def capital_mcq_def sky_tfq_def t_id_def at_def String_def)

text \<open>
  C6. On a current question with neither \<open>options\<close> nor \<open>answer\<close>, checking the answer
  does not fail: it writes the incorrect feedback with an empty correct-answer text, that
  is \<open>t incorrect_feedback\<close> followed by a space, whatever answer was recorded.
\<close>

theorem bare_question_gets_incorrect_feedback:
  assumes "at (questions s) (currentQuestionIndex s) = Some q"
    and "options q = None" and "answer q = None"
  shows "handleCheckAnswer t s =
     Inr (s\<lparr>feedback := (feedback s)(currentQuestionIndex s \<mapsto> t ''incorrect_feedback'' @ '' '')\<rparr>)"
  using assms by (simp add: handleCheckAnswer_def)

text \<open>A question that holds its text only, with the answer \<open>false\<close> recorded.\<close>

theorem bare_question_gets_incorrect_feedback_witness:
  "at (questions (answering bare_question ''false'')) 0 = Some bare_question
   \<and> options bare_question = None \<and> answer bare_question = None
   \<and> handleCheckAnswer t_id (answering bare_question ''false'') =
       Inr ((answering bare_question ''false'')\<lparr>feedback := [0 \<mapsto> ''incorrect_feedback '']\<rparr>)"
  using bare_question_gets_incorrect_feedback
    [of "answering bare_question ''false''" bare_question t_id]
  by (simp add: answering_def initial_def bare_question_def t_id_def at_def)

text \<open>The same question with the answer \<open>true\<close> recorded: the check returns a state.\<close>

theorem bare_question_does_not_fail:
  "handleCheckAnswer t_id (answering bare_question ''true'') \<noteq> Inl TypeError
   \<and> handleCheckAnswer t_id (answering bare_question ''true'') =
     Inr ((answering bare_question ''true'')\<lparr>feedback := [0 \<mapsto> ''incorrect_feedback '']\<rparr>)"
  by (simp add: answering_def initial_def bare_question_def t_id_def at_def
      handleCheckAnswer_def)

section \<open>Generate more\<close>

text \<open>
  C7. The "generate more" action empties \<open>questions\<close>, \<open>userAnswers\<close> and \<open>feedback\<close>,
  sets \<open>questionCount\<close> to 5, clears \<open>questionType\<close>, sets the stage to \<open>SELECT_TYPE\<close> and
  leaves \<open>studyMaterial\<close> as it was; this holds from every stage, \<open>COMPLETED\<close> included.
\<close>

theorem generate_more_resets_quiz:
  "questions (handleGenerateMore s) = []
   \<and> userAnswers (handleGenerateMore s) = Map.empty
   \<and> feedback (handleGenerateMore s) = Map.empty
   \<and> questionCount (handleGenerateMore s) = 5
   \<and> questionType (handleGenerateMore s) = None
   \<and> stage (handleGenerateMore s) = SELECT_TYPE
   \<and> studyMaterial (handleGenerateMore s) = studyMaterial s"
  by (simp add: handleGenerateMore_def)

section \<open>Results of asynchronous operations\<close>

text \<open>
  C9. A result that arrives from the analysis timer or from the generator call is applied
  to the state as it is by then, whatever its stage, hence also when the stage the
  operation started in has been left. The timer sets the stage to \<open>SELECT_TYPE\<close> and
  changes nothing else, so the state stays as it was only if its stage already was
  \<open>SELECT_TYPE\<close>. A generator call that resolves to a non-empty list stores the questions,
  sets the index to 0, empties answers and feedback and sets the stage to \<open>ANSWERING\<close>, so
  the state stays as it was only if it already held all of that. A call that rejects or
  resolves to an empty list sets the error \<open>error_generation_failed\<close> and the stage
  \<open>SELECT_COUNT\<close>, so the state stays as it was only if it already held both.
\<close>

theorem async_results_applied_whatever_the_stage:
  "analyzeTimeout s = s\<lparr>stage := SELECT_TYPE\<rparr>
   \<and> stage (analyzeTimeout s) = SELECT_TYPE
   \<and> (analyzeTimeout s = s) = (stage s = SELECT_TYPE)
   \<and> handleGenerateQuestions_settle t (Some (q # qs)) s =
       s\<lparr>questions := q # qs, currentQuestionIndex := 0, userAnswers := Map.empty,
         feedback := Map.empty, stage := ANSWERING\<rparr>
   \<and> (handleGenerateQuestions_settle t (Some (q # qs)) s = s) =
       (questions s = q # qs \<and> currentQuestionIndex s = 0 \<and> userAnswers s = Map.empty
        \<and> feedback s = Map.empty \<and> stage s = ANSWERING)
   \<and> handleGenerateQuestions_settle t (Some []) s =
       s\<lparr>error := Some (t ''error_generation_failed''), stage := SELECT_COUNT\<rparr>
   \<and> handleGenerateQuestions_settle t None s =
       s\<lparr>error := Some (t ''error_generation_failed''), stage := SELECT_COUNT\<rparr>
   \<and> (handleGenerateQuestions_settle t None s = s) =
       (error s = Some (t ''error_generation_failed'') \<and> stage s = SELECT_COUNT)
   \<and> (handleGenerateQuestions_settle t (Some []) s = s) =
       (error s = Some (t ''error_generation_failed'') \<and> stage s = SELECT_COUNT)"
proof -
  have timer: "(s\<lparr>stage := SELECT_TYPE\<rparr> = s) = (stage s = SELECT_TYPE)"
    by (cases s) auto
  have resolved:
    "(s\<lparr>questions := q # qs, currentQuestionIndex := 0, userAnswers := Map.empty,
         feedback := Map.empty, stage := ANSWERING\<rparr> = s) =
     (questions s = q # qs \<and> currentQuestionIndex s = 0 \<and> userAnswers s = Map.empty
      \<and> feedback s = Map.empty \<and> stage s = ANSWERING)"
    by (cases s) auto
  have rejected:
    "(s\<lparr>error := Some (t ''error_generation_failed''), stage := SELECT_COUNT\<rparr> = s) =
     (error s = Some (t ''error_generation_failed'') \<and> stage s = SELECT_COUNT)"
    by (cases s) auto
  show ?thesis
    using timer resolved rejected
    by (simp add: analyzeTimeout_def handleGenerateQuestions_settle_def)
qed

text \<open>
  In the session of the two dropped files, the text file starts the timer and the stage
  \<open>PROCESSING\<close>; the PDF file then moves the stage to \<open>SELECT_PAGE_RANGE\<close>, and the back
  button to \<open>UPLOAD\<close> with the study material cleared. The timer started in \<open>PROCESSING\<close>
  then fires and changes the state: the stage becomes \<open>SELECT_TYPE\<close>.
\<close>

theorem stale_timer_applied_after_back:
  "snd notes_settled = True
   \<and> stage (fst notes_settled) = PROCESSING
   \<and> stage (fst slides_settled) = SELECT_PAGE_RANGE
   \<and> stage gone_back = UPLOAD
   \<and> studyMaterial gone_back = None
   \<and> stage (analyzeTimeout gone_back) = SELECT_TYPE
   \<and> analyzeTimeout gone_back \<noteq> gone_back"
  by (simp add: gone_back_def slides_settled_def notes_settled_def two_drops_def
      typed_notes_def initial_def ex_env_def ex_pdf_def notes_txt_def slides_pdf_def t_id_def
      processFile_begin_def processFile_settle_def handleAnalyze_def startsWith_def
      endsWith_def handleBack_def handleResetUpload_def analyzeTimeout_def)

end
